theory Spec2Isabelle
  imports Main "HOL-Library.Sublist"
begin

section \<open>babel-plugin-import-to-await-require: the path matcher\<close>

text \<open>
  Strings are lists of characters; the plugin compares them, takes their first character
  and tests prefixes, and nothing in it depends on the character set.

  The plugin reads two functions of the host's \<open>path\<close> module, \<open>extname\<close> and
  \<open>isAbsolute\<close>. They are not code of the plugin and they differ between platforms, so
  the matcher takes them as a parameter; \<open>posix\<close> below is the POSIX variant.
\<close>

record path_module =
  extname :: "string \<Rightarrow> string"
  isAbsolute :: "string \<Rightarrow> bool"

text \<open>The last component of a POSIX path, trailing separators dropped.\<close>

definition posix_last_part :: "string \<Rightarrow> string" where
  "posix_last_part p =
     rev (takeWhile (\<lambda>c. c \<noteq> CHR ''/'') (dropWhile (\<lambda>c. c = CHR ''/'') (rev p)))"

text \<open>
  \<open>path.posix.extname\<close>: from the last dot of the last component to its end; empty when
  the component has no dot, when its last dot is its first character, and for the
  component \<open>..\<close>.
\<close>

definition posix_extname :: "string \<Rightarrow> string" where
  "posix_extname p =
     (let part = posix_last_part p in
      if CHR ''.'' \<notin> set part then []
      else
        let ext = CHR ''.'' # rev (takeWhile (\<lambda>c. c \<noteq> CHR ''.'') (rev part));
            stem = take (length part - length ext) part
        in if stem = [] \<or> part = ''..'' then [] else ext)"

definition posix_isAbsolute :: "string \<Rightarrow> bool" where
  "posix_isAbsolute p = (take 1 p = ''/'')"

definition posix :: path_module where
  "posix = \<lparr>extname = posix_extname, isAbsolute = posix_isAbsolute\<rparr>"

text \<open>
  An object used as a string-keyed table (\<open>IAlias\<close>) is the list of its entries in the
  order of \<open>Object.keys\<close>; the keys of such a list are distinct.
\<close>

type_synonym IAlias = "(string \<times> string) list"

definition Object_keys :: "IAlias \<Rightarrow> string list" where
  "Object_keys obj = map fst obj"

text \<open>
  An entry of \<open>libs\<close>: a string, a regular expression, or a value of any other kind.
  A regular expression is held by what its \<open>test\<close> method answers. This is an expression
  without the global or sticky flag, whose \<open>test\<close> keeps no position between calls; one
  with such a flag, whose answer depends on the calls made before, is outside the model.
\<close>

datatype lib = LibString string | LibRegExp "string \<Rightarrow> bool" | LibOther

text \<open>
  What the plugin's code can throw: the \<open>Error\<close> of \<open>isMatchLib\<close> for an entry of \<open>libs\<close>
  of a wrong kind, and a \<open>TypeError\<close> (further down: a call of a value that is not a
  function, a node builder given \<open>undefined\<close>).
\<close>

datatype error = UnsupportedLibFormat | TypeError

text \<open>
  \<open>RE_NODE_MODULES\<close> and \<open>RE_UMI_LOCAL_DEV\<close> are regular expressions made of literal
  characters only; \<open>test\<close> on such an expression searches the text for that run of
  characters.
\<close>

definition RE_NODE_MODULES :: string where
  "RE_NODE_MODULES = ''node_modules''"

definition RE_UMI_LOCAL_DEV :: string where
  "RE_UMI_LOCAL_DEV = ''umi/packages/''"

fun test :: "string \<Rightarrow> string \<Rightarrow> bool" where
  "test re [] = (re = [])"
| "test re (c # cs) = (prefix re (c # cs) \<or> test re cs)"

definition startsWith :: "string \<Rightarrow> string \<Rightarrow> bool" where
  "startsWith s searchString = prefix searchString s"

definition endsWith :: "string \<Rightarrow> string \<Rightarrow> bool" where
  "endsWith s searchString = suffix searchString s"

definition isJSFile :: "path_module \<Rightarrow> string \<Rightarrow> bool" where
  "isJSFile P path = (extname P path \<in> set [''.js'', ''.jsx'', ''.ts'', ''.tsx''])"

definition addLastSlash :: "string \<Rightarrow> string" where
  "addLastSlash path = (if endsWith path ''/'' then path else path @ ''/'')"

text \<open>
  \<open>getAlias\<close>: the loop over the keys of \<open>webpackAlias\<close>, returning at the first key that
  fits; \<open>None\<close> is the \<open>null\<close> returned after the loop.
\<close>

fun getAlias :: "path_module \<Rightarrow> string \<Rightarrow> IAlias \<Rightarrow> string option" where
  "getAlias P path [] = None"
| "getAlias P path ((key, val) # rest) =
     (let p = (if isJSFile P val then key else addLastSlash key) in
      if startsWith path p then Some val else getAlias P path rest)"

text \<open>
  The text that one entry of \<open>webpackAlias\<close> is compared with in \<open>getAlias\<close> (its local
  constant \<open>path\<close>), as a function of the entry.
\<close>

definition entry_prefix :: "path_module \<Rightarrow> string \<times> string \<Rightarrow> string" where
  "entry_prefix P e = (if isJSFile P (snd e) then fst e else addLastSlash (fst e))"

text \<open>
  \<open>Array.prototype.some\<close> over the entries, with the callback of \<open>isMatchLib\<close>: it stops at
  the first entry that answers true, and an entry of another kind throws when it is
  reached.
\<close>

fun some_lib :: "string \<Rightarrow> lib list \<Rightarrow> error + bool" where
  "some_lib path [] = Inr False"
| "some_lib path (LibString s # rest) =
     (if s = path then Inr True else some_lib path rest)"
| "some_lib path (LibRegExp r # rest) =
     (if r path then Inr True else some_lib path rest)"
| "some_lib path (LibOther # rest) = Inl UnsupportedLibFormat"

text \<open>
  \<open>isMatchLib\<close>. \<open>matchAll\<close> and \<open>libs\<close> may be undefined (\<open>None\<close>); \<open>if (aliasPath)\<close> is
  false for \<open>null\<close> and for the empty string.
\<close>

definition isMatchLib ::
  "path_module \<Rightarrow> string \<Rightarrow> lib list option \<Rightarrow> bool option \<Rightarrow> IAlias \<Rightarrow> IAlias \<Rightarrow> error + bool" where
  "isMatchLib P path libs matchAll alias webpackAlias =
     (if matchAll = Some True then
        (if path = ''umi'' \<or> path = ''dumi'' then Inr False
         else if isAbsolute P path then
           Inr (test RE_NODE_MODULES path \<or> test RE_UMI_LOCAL_DEV path)
         else if take 1 path = ''.'' then Inr False
         else
           (case getAlias P path webpackAlias of
              Some aliasPath \<Rightarrow>
                if aliasPath \<noteq> [] then
                  Inr (test RE_NODE_MODULES aliasPath \<or> test RE_UMI_LOCAL_DEV aliasPath)
                else Inr True
            | None \<Rightarrow> Inr True))
      else
        some_lib path
          ((case libs of None \<Rightarrow> [] | Some ls \<Rightarrow> ls) @ map LibString (Object_keys alias)))"


text \<open>
  \<open>String.prototype.replace\<close> with a string pattern: the first occurrence of the pattern
  is replaced, and the replacement text is expanded by \<open>GetSubstitution\<close> (\<open>$$\<close>, \<open>$&\<close>,
  \<open>$`\<close> and \<open>$'\<close>; with a string pattern there are no groups, so every other \<open>$\<close> stays).
\<close>

fun GetSubstitution :: "string \<Rightarrow> string \<Rightarrow> string \<Rightarrow> string \<Rightarrow> string" where
  "GetSubstitution matched preceding following [] = []"
| "GetSubstitution matched preceding following [c] = [c]"
| "GetSubstitution matched preceding following (c # d # rest) =
     (if c = CHR ''$'' \<and> d = CHR ''$''
      then CHR ''$'' # GetSubstitution matched preceding following rest
      else if c = CHR ''$'' \<and> d = CHR ''&''
      then matched @ GetSubstitution matched preceding following rest
      else if c = CHR ''$'' \<and> d = CHR 0x60
      then preceding @ GetSubstitution matched preceding following rest
      else if c = CHR ''$'' \<and> d = CHR 0x27
      then following @ GetSubstitution matched preceding following rest
      else c # GetSubstitution matched preceding following (d # rest))"

fun replace_from :: "string \<Rightarrow> string \<Rightarrow> string \<Rightarrow> string \<Rightarrow> string" where
  "replace_from preceding [] pat rep =
     (if pat = [] then preceding @ GetSubstitution pat preceding [] rep else preceding)"
| "replace_from preceding (c # cs) pat rep =
     (if prefix pat (c # cs)
      then preceding @ GetSubstitution pat preceding (drop (length pat) (c # cs)) rep
             @ drop (length pat) (c # cs)
      else replace_from (preceding @ [c]) cs pat rep)"

definition replace :: "string \<Rightarrow> string \<Rightarrow> string \<Rightarrow> string" where
  "replace s pat rep = replace_from [] s pat rep"

fun getPath :: "string \<Rightarrow> IAlias \<Rightarrow> string" where
  "getPath path [] = path"
| "getPath path ((key, val) # rest) =
     (if startsWith path key then replace path key val else getPath path rest)"

section \<open>The syntax tree\<close>

text \<open>
  Names (identifiers, and string literals used as names) are strings. An object property
  of a pattern is its pair of key and value.
\<close>

datatype node =
    Identifier string
  | StringLiteral string
  | Import
  | ObjectPattern "(string \<times> string) list"
  | CallExpression node "node list"
  | AwaitExpression node
  | OtherExpression string

datatype specifier =
    ImportDefaultSpecifier string
  | ImportNamespaceSpecifier string
  | ImportSpecifier string string
  | ExportDefaultSpecifier string
  | ExportSpecifier string string
  | ExportNamespaceSpecifier string

text \<open>
  \<open>ImportSpecifier imported local\<close>, \<open>ExportSpecifier local exported\<close>; the other four hold
  their one name (\<open>local\<close>, \<open>local\<close>, \<open>exported\<close>, and \<open>exported\<close> for the specifier of
  \<open>export * as ns from\<close>).
  \<open>ImportDeclaration specifiers source\<close>, \<open>ExportAllDeclaration source\<close> (its source is
  always there), \<open>ExportNamedDeclaration declaration specifiers source\<close>.
\<close>

datatype declarator = VariableDeclarator node node

datatype statement =
    ImportDeclaration "specifier list" string
  | ExportAllDeclaration string
  | ExportNamedDeclaration "statement option" "specifier list" "string option"
  | VariableDeclaration string "declarator list"
  | OtherStatement string

record memo =
  properties :: "(string \<times> string) list"
  namespaceIdentifier :: "string option"

text \<open>
  The callback of the \<open>reduce\<close> in \<open>specifiersToProperties\<close>. Its last branch reads
  \<open>s.imported\<close> and \<open>s.local\<close>; an \<open>ExportNamespaceSpecifier\<close> has neither, and
  \<open>t.objectProperty\<close> refuses the two \<open>undefined\<close> with a \<open>TypeError\<close>.
\<close>

fun specifiersToProperties_step :: "memo \<Rightarrow> specifier \<Rightarrow> error + memo" where
  "specifiersToProperties_step m (ImportDefaultSpecifier local) =
     Inr (m\<lparr>properties := properties m @ [(''default'', local)]\<rparr>)"
| "specifiersToProperties_step m (ExportDefaultSpecifier exported) =
     Inr (m\<lparr>properties := properties m @ [(''default'', exported)]\<rparr>)"
| "specifiersToProperties_step m (ExportSpecifier local exported) =
     Inr (m\<lparr>properties := properties m @ [(local, exported)]\<rparr>)"
| "specifiersToProperties_step m (ImportNamespaceSpecifier local) =
     Inr (m\<lparr>namespaceIdentifier := Some local\<rparr>)"
| "specifiersToProperties_step m (ImportSpecifier imported local) =
     Inr (m\<lparr>properties := properties m @ [(imported, local)]\<rparr>)"
| "specifiersToProperties_step m (ExportNamespaceSpecifier exported) = Inl TypeError"

fun reduce :: "memo \<Rightarrow> specifier list \<Rightarrow> error + memo" where
  "reduce m [] = Inr m"
| "reduce m (s # rest) =
     (case specifiersToProperties_step m s of
        Inl e \<Rightarrow> Inl e
      | Inr m' \<Rightarrow> reduce m' rest)"

definition specifiersToProperties :: "specifier list \<Rightarrow> error + memo" where
  "specifiersToProperties specifiers =
     reduce \<lparr>properties = [], namespaceIdentifier = None\<rparr> specifiers"

section \<open>The options and the two visitors\<close>

text \<open>
  \<open>onTransformDeps\<close> tells whether the callback is supplied. The callback is opaque; what
  the model keeps of it is the list of its calls, each with the argument record and with
  what the visitor's data was at that moment. \<open>exportAllMembers\<close> holds the own entries of
  the object.
\<close>

record IOpts =
  libs :: "lib list option"
  matchAll :: "bool option"
  remoteName :: string
  alias' :: "IAlias option"
  webpackAlias :: "IAlias option"
  onTransformDeps :: bool
  exportAllMembers :: "(string \<rightharpoonup> string list) option"

record transform_dep =
  source :: string
  file' :: string
  isMatch :: bool
  isExportAllDeclaration :: "bool option"

definition notify :: "IOpts \<Rightarrow> transform_dep \<Rightarrow> 's \<Rightarrow> (transform_dep \<times> 's) list \<Rightarrow> (transform_dep \<times> 's) list" where
  "notify opts dep seen cs = (if onTransformDeps opts then cs @ [(dep, seen)] else cs)"

definition or_empty :: "'a list option \<Rightarrow> 'a list" where
  "or_empty x = (case x of None \<Rightarrow> [] | Some xs \<Rightarrow> xs)"

text \<open>The call of \<open>isMatchLib\<close> that all four places of the visitors make.\<close>

definition matchLib :: "path_module \<Rightarrow> IOpts \<Rightarrow> string \<Rightarrow> error + bool" where
  "matchLib P opts path =
     isMatchLib P path (libs opts) (matchAll opts) (or_empty (alias' opts))
       (or_empty (webpackAlias opts))"

definition remotePath :: "IOpts \<Rightarrow> string \<Rightarrow> string" where
  "remotePath opts path = remoteName opts @ ''/'' @ getPath path (or_empty (alias' opts))"

definition awaitImport :: "string \<Rightarrow> node" where
  "awaitImport path = AwaitExpression (CallExpression Import [StringLiteral path])"

definition const :: "node \<Rightarrow> node \<Rightarrow> statement" where
  "const ident init = VariableDeclaration ''const'' [VariableDeclarator ident init]"

definition unshift :: "'a \<Rightarrow> 'a list \<Rightarrow> 'a list" where
  "unshift x xs = x # xs"

definition splice1 :: "'a list \<Rightarrow> nat \<Rightarrow> 'a list" where
  "splice1 xs i = take i xs @ drop (Suc i) xs"

text \<open>
  \<open>opts.exportAllMembers?.[source]\<close>. The object is an ordinary one, so a name that is not
  among its own entries is still found when \<open>Object.prototype\<close> has it: what is found then
  is a function (for \<open>__proto__\<close>, the prototype itself), which is truthy and has no
  \<open>map\<close>.
\<close>

datatype member_lookup = Absent | Members "string list" | InheritedMember

definition Object_prototype_members :: "string list" where
  "Object_prototype_members =
     [''constructor'', ''__defineGetter__'', ''__defineSetter__'', ''hasOwnProperty'',
      ''__lookupGetter__'', ''__lookupSetter__'', ''isPrototypeOf'',
      ''propertyIsEnumerable'', ''toString'', ''valueOf'', ''__proto__'',
      ''toLocaleString'']"

definition members_of :: "IOpts \<Rightarrow> string \<Rightarrow> member_lookup" where
  "members_of opts path =
     (case exportAllMembers opts of
        None \<Rightarrow> Absent
      | Some m \<Rightarrow>
          (case m path of
             Some members \<Rightarrow> Members members
           | None \<Rightarrow>
               if path \<in> set Object_prototype_members then InheritedMember else Absent))"

record pass_state =
  body :: "statement list"
  variableDeclarations :: "statement list"
  calls :: "(transform_dep \<times> statement list \<times> statement list) list"

text \<open>
  One turn of the \<open>while\<close> loop of \<open>Program.exit\<close>, at \<open>index\<close>. The three \<open>if\<close> statements
  of the loop test the kind of the same \<open>d\<close>, read once at the top, so at most one of them
  runs; \<open>body[index]\<close> beyond the end is \<open>undefined\<close>, which is of no kind.

  A turn that throws gives \<open>Inl\<close> of the error and of the state as the throw leaves it:
  nothing that was done before is undone. \<open>isMatchLib\<close> throws before the callback is
  called; \<open>specifiersToProperties\<close> throws after the call and before anything is
  rewritten; with an inherited member, \<open>.map\<close> is not a function, which throws after the
  declaration was put into the accumulator and before the statement is replaced.
\<close>

definition Program_exit_turn ::
  "path_module \<Rightarrow> IOpts \<Rightarrow> string \<Rightarrow> nat \<Rightarrow> pass_state \<Rightarrow> error \<times> pass_state + pass_state" where
  "Program_exit_turn P opts filename index st =
     (if index < length (body st) then
        (case body st ! index of
           ImportDeclaration specifiers src \<Rightarrow>
             (case matchLib P opts src of
                Inl e \<Rightarrow> Inl (e, st)
              | Inr m \<Rightarrow>
                  let st1 = st\<lparr>calls := notify opts
                        \<lparr>source = src, file' = filename, isMatch = m,
                         isExportAllDeclaration = None\<rparr>
                        (body st, variableDeclarations st) (calls st)\<rparr>
                  in
                  if m then
                    (case specifiersToProperties specifiers of
                       Inl e \<Rightarrow> Inl (e, st1)
                     | Inr mm \<Rightarrow>
                         let ident = ObjectPattern (properties mm);
                             init = awaitImport (remotePath opts src);
                             vds = (case namespaceIdentifier mm of
                                      Some ns \<Rightarrow>
                                        unshift (const (Identifier ns) init)
                                          (if properties mm \<noteq> []
                                           then unshift (const ident (Identifier ns))
                                                  (variableDeclarations st1)
                                           else variableDeclarations st1)
                                    | None \<Rightarrow>
                                        unshift (const ident init) (variableDeclarations st1))
                         in Inr (st1\<lparr>body := splice1 (body st1) index,
                                     variableDeclarations := vds\<rparr>))
                  else Inr st1)
         | ExportAllDeclaration src \<Rightarrow>
             (case matchLib P opts src of
                Inl e \<Rightarrow> Inl (e, st)
              | Inr m \<Rightarrow>
                  let st1 = st\<lparr>calls := notify opts
                        \<lparr>source = src, file' = filename, isMatch = False,
                         isExportAllDeclaration = Some True\<rparr>
                        (body st, variableDeclarations st) (calls st)\<rparr>
                  in
                  if m then
                    (case members_of opts src of
                       Absent \<Rightarrow> Inr st1
                     | Members members \<Rightarrow>
                         let ident = Identifier ''__all_exports'';
                             init = awaitImport (remotePath opts src)
                         in Inr (st1\<lparr>body := (body st1)[index :=
                                      ExportNamedDeclaration
                                        (Some (const (ObjectPattern (map (\<lambda>m. (m, m)) members))
                                                 (Identifier ''__all_exports'')))
                                        [] None],
                                    variableDeclarations :=
                                      unshift (const ident init) (variableDeclarations st1)\<rparr>)
                     | InheritedMember \<Rightarrow>
                         let ident = Identifier ''__all_exports'';
                             init = awaitImport (remotePath opts src)
                         in Inl (TypeError,
                                 st1\<lparr>variableDeclarations :=
                                       unshift (const ident init) (variableDeclarations st1)\<rparr>))
                  else Inr st1)
         | ExportNamedDeclaration declaration specifiers (Some src) \<Rightarrow>
             (case matchLib P opts src of
                Inl e \<Rightarrow> Inl (e, st)
              | Inr m \<Rightarrow>
                  let st1 = st\<lparr>calls := notify opts
                        \<lparr>source = src, file' = filename, isMatch = m,
                         isExportAllDeclaration = None\<rparr>
                        (body st, variableDeclarations st) (calls st)\<rparr>
                  in
                  if m then
                    (case specifiersToProperties specifiers of
                       Inl e \<Rightarrow> Inl (e, st1)
                     | Inr mm \<Rightarrow>
                         let ident = ObjectPattern (properties mm);
                             init = awaitImport (remotePath opts src)
                         in Inr (st1\<lparr>body := (body st1)[index :=
                                        ExportNamedDeclaration declaration specifiers None],
                                     variableDeclarations :=
                                       unshift (const ident init) (variableDeclarations st1)\<rparr>))
                  else Inr st1)
         | _ \<Rightarrow> Inr st)
      else Inr st)"

text \<open>
  The loop: \<open>Program_exit_loop \<dots> n\<close> runs the turns at \<open>n - 1\<close>, \<dots>, \<open>0\<close>, and a throw ends
  it. \<open>Program_exit_run\<close> starts it at the last statement and puts the declarations in
  front. Of a run, \<open>Program_exit\<close> is what the caller gets, the error thrown or the state
  with the new body, and \<open>Program_exit_calls\<close> is what the callback has received, also
  when the run ended in a throw.
\<close>

fun Program_exit_loop ::
  "path_module \<Rightarrow> IOpts \<Rightarrow> string \<Rightarrow> nat \<Rightarrow> pass_state \<Rightarrow> error \<times> pass_state + pass_state" where
  "Program_exit_loop P opts filename 0 st = Inr st"
| "Program_exit_loop P opts filename (Suc index) st =
     (case Program_exit_turn P opts filename index st of
        Inl thrown \<Rightarrow> Inl thrown
      | Inr st' \<Rightarrow> Program_exit_loop P opts filename index st')"

definition Program_exit_run ::
  "path_module \<Rightarrow> IOpts \<Rightarrow> string \<Rightarrow> statement list \<Rightarrow> error \<times> pass_state + pass_state" where
  "Program_exit_run P opts filename program =
     (case Program_exit_loop P opts filename (length program)
             \<lparr>body = program, variableDeclarations = [], calls = []\<rparr> of
        Inl thrown \<Rightarrow> Inl thrown
      | Inr st \<Rightarrow> Inr (st\<lparr>body := variableDeclarations st @ body st\<rparr>))"

definition Program_exit ::
  "path_module \<Rightarrow> IOpts \<Rightarrow> string \<Rightarrow> statement list \<Rightarrow> error + pass_state" where
  "Program_exit P opts filename program =
     (case Program_exit_run P opts filename program of
        Inl (e, st) \<Rightarrow> Inl e
      | Inr st \<Rightarrow> Inr st)"

definition Program_exit_calls ::
  "path_module \<Rightarrow> IOpts \<Rightarrow> string \<Rightarrow> statement list
     \<Rightarrow> (transform_dep \<times> statement list \<times> statement list) list" where
  "Program_exit_calls P opts filename program =
     (case Program_exit_run P opts filename program of
        Inl (e, st) \<Rightarrow> calls st
      | Inr st \<Rightarrow> calls st)"

text \<open>
  \<open>CallExpression.exit\<close> on one call node: the error thrown or the node as it is left,
  and the calls of the callback with the node as it was at that moment. The only throw
  is that of \<open>isMatchLib\<close>, before the callback is called. \<open>CallExpression_exit\<close> is
  what the caller gets, \<open>CallExpression_exit_calls\<close> what the callback has received.
\<close>

definition CallExpression_exit_run ::
  "path_module \<Rightarrow> IOpts \<Rightarrow> string \<Rightarrow> node \<Rightarrow> (error + node) \<times> (transform_dep \<times> node) list" where
  "CallExpression_exit_run P opts filename nd =
     (case nd of
        CallExpression callee arguments \<Rightarrow>
          (if callee = Import \<and> length arguments = 1 then
             (case arguments ! 0 of
                StringLiteral val \<Rightarrow>
                  (case matchLib P opts val of
                     Inl e \<Rightarrow> (Inl e, [])
                   | Inr m \<Rightarrow>
                       let cs = notify opts
                             \<lparr>source = val, file' = filename, isMatch = m,
                              isExportAllDeclaration = None\<rparr> nd []
                       in
                       if m then
                         (Inr (CallExpression callee
                                 (arguments[0 := StringLiteral (remotePath opts val)])), cs)
                       else (Inr nd, cs))
              | _ \<Rightarrow> (Inr nd, []))
           else (Inr nd, []))
      | _ \<Rightarrow> (Inr nd, []))"

definition CallExpression_exit ::
  "path_module \<Rightarrow> IOpts \<Rightarrow> string \<Rightarrow> node \<Rightarrow> error + node \<times> (transform_dep \<times> node) list" where
  "CallExpression_exit P opts filename nd =
     (case CallExpression_exit_run P opts filename nd of
        (Inl e, cs) \<Rightarrow> Inl e
      | (Inr nd', cs) \<Rightarrow> Inr (nd', cs))"

definition CallExpression_exit_calls ::
  "path_module \<Rightarrow> IOpts \<Rightarrow> string \<Rightarrow> node \<Rightarrow> (transform_dep \<times> node) list" where
  "CallExpression_exit_calls P opts filename nd = snd (CallExpression_exit_run P opts filename nd)"

section \<open>What the pass does, statement by statement\<close>

text \<open>
  The loop above works on one list by index, from the end, with removals. The functions
  of this section say, for one statement alone, what the pass makes of it; the lemmas
  further down show that the loop computes exactly that, in the order of the program.
\<close>

text \<open>The module reference that \<open>Program.exit\<close> examines in a statement, if it has one.\<close>

definition reference :: "statement \<Rightarrow> string option" where
  "reference d =
     (case d of
        ImportDeclaration specifiers src \<Rightarrow> Some src
      | ExportAllDeclaration src \<Rightarrow> Some src
      | ExportNamedDeclaration declaration specifiers (Some src) \<Rightarrow> Some src
      | _ \<Rightarrow> None)"

definition matched :: "path_module \<Rightarrow> IOpts \<Rightarrow> statement \<Rightarrow> bool" where
  "matched P opts d =
     (case reference d of
        None \<Rightarrow> False
      | Some src \<Rightarrow> matchLib P opts src = Inr True)"

text \<open>
  The error that the turn at a statement throws, if it throws: that of the match test
  on its reference, or, when the reference matches, that of the projection of its
  specifiers or of the inherited member.
\<close>

definition failure :: "path_module \<Rightarrow> IOpts \<Rightarrow> statement \<Rightarrow> error option" where
  "failure P opts d =
     (case reference d of
        None \<Rightarrow> None
      | Some src \<Rightarrow>
          (case matchLib P opts src of
             Inl e \<Rightarrow> Some e
           | Inr m \<Rightarrow>
               if m then
                 (case d of
                    ImportDeclaration specifiers src' \<Rightarrow>
                      (case specifiersToProperties specifiers of
                         Inl e \<Rightarrow> Some e
                       | Inr mm \<Rightarrow> None)
                  | ExportAllDeclaration src' \<Rightarrow>
                      (if members_of opts src = InheritedMember then Some TypeError else None)
                  | ExportNamedDeclaration declaration specifiers src' \<Rightarrow>
                      (case specifiersToProperties specifiers of
                         Inl e \<Rightarrow> Some e
                       | Inr mm \<Rightarrow> None)
                  | _ \<Rightarrow> None)
               else None))"

definition throws :: "path_module \<Rightarrow> IOpts \<Rightarrow> statement \<Rightarrow> bool" where
  "throws P opts d = (failure P opts d \<noteq> None)"

text \<open>
  The error that ends the pass, if one does: the scan runs from the last statement to the
  first, so it is the error of the last statement that throws.
\<close>

fun first_failure :: "path_module \<Rightarrow> IOpts \<Rightarrow> statement list \<Rightarrow> error option" where
  "first_failure P opts [] = None"
| "first_failure P opts (d # rest) =
     (case first_failure P opts rest of
        Some e \<Rightarrow> Some e
      | None \<Rightarrow> failure P opts d)"

definition generated_by :: "path_module \<Rightarrow> IOpts \<Rightarrow> statement \<Rightarrow> statement list" where
  "generated_by P opts d =
     (if matched P opts d then
        (case d of
           ImportDeclaration specifiers src \<Rightarrow>
             (case specifiersToProperties specifiers of
                Inl e \<Rightarrow> []
              | Inr mm \<Rightarrow>
                  (let init = awaitImport (remotePath opts src)
                   in case namespaceIdentifier mm of
                        Some ns \<Rightarrow>
                          if properties mm \<noteq> []
                          then [const (Identifier ns) init,
                                const (ObjectPattern (properties mm)) (Identifier ns)]
                          else [const (Identifier ns) init]
                      | None \<Rightarrow> [const (ObjectPattern (properties mm)) init]))
         | ExportAllDeclaration src \<Rightarrow>
             (case members_of opts src of
                Members members \<Rightarrow>
                  [const (Identifier ''__all_exports'') (awaitImport (remotePath opts src))]
              | _ \<Rightarrow> [])
         | ExportNamedDeclaration declaration specifiers (Some src) \<Rightarrow>
             (case specifiersToProperties specifiers of
                Inl e \<Rightarrow> []
              | Inr mm \<Rightarrow>
                  [const (ObjectPattern (properties mm)) (awaitImport (remotePath opts src))])
         | _ \<Rightarrow> [])
      else [])"

definition retained_of :: "path_module \<Rightarrow> IOpts \<Rightarrow> statement \<Rightarrow> statement list" where
  "retained_of P opts d =
     (if matched P opts d then
        (case d of
           ImportDeclaration specifiers src \<Rightarrow> []
         | ExportAllDeclaration src \<Rightarrow>
             (case members_of opts src of
                Members members \<Rightarrow>
                  [ExportNamedDeclaration
                     (Some (const (ObjectPattern (map (\<lambda>m. (m, m)) members))
                              (Identifier ''__all_exports'')))
                     [] None]
              | _ \<Rightarrow> [d])
         | ExportNamedDeclaration declaration specifiers (Some src) \<Rightarrow>
             [ExportNamedDeclaration declaration specifiers None]
         | _ \<Rightarrow> [d])
      else [d])"

definition generated :: "path_module \<Rightarrow> IOpts \<Rightarrow> statement list \<Rightarrow> statement list" where
  "generated P opts program = concat (map (generated_by P opts) program)"

definition retained :: "path_module \<Rightarrow> IOpts \<Rightarrow> statement list \<Rightarrow> statement list" where
  "retained P opts program = concat (map (retained_of P opts) program)"

text \<open>
  The argument record of the callback for a statement, as the three branches of the loop
  build it from the outcome \<open>m\<close> of the match test.
\<close>

definition dep_of :: "string \<Rightarrow> statement \<Rightarrow> bool \<Rightarrow> transform_dep option" where
  "dep_of filename d m =
     (case d of
        ImportDeclaration specifiers src \<Rightarrow>
          Some \<lparr>source = src, file' = filename, isMatch = m,
                isExportAllDeclaration = None\<rparr>
      | ExportAllDeclaration src \<Rightarrow>
          Some \<lparr>source = src, file' = filename, isMatch = False,
                isExportAllDeclaration = Some True\<rparr>
      | ExportNamedDeclaration declaration specifiers (Some src) \<Rightarrow>
          Some \<lparr>source = src, file' = filename, isMatch = m,
                isExportAllDeclaration = None\<rparr>
      | _ \<Rightarrow> None)"

text \<open>
  The call made in the turn at a statement, when the state of that moment is \<open>seen\<close>:
  none for a statement without a reference, none when the match test throws, and none
  without a callback.
\<close>

definition notified ::
  "path_module \<Rightarrow> IOpts \<Rightarrow> string \<Rightarrow> statement \<Rightarrow> 's \<Rightarrow> (transform_dep \<times> 's) list" where
  "notified P opts filename d seen =
     (case reference d of
        None \<Rightarrow> []
      | Some src \<Rightarrow>
          (case matchLib P opts src of
             Inl e \<Rightarrow> []
           | Inr m \<Rightarrow>
               (case dep_of filename d m of
                  None \<Rightarrow> []
                | Some dep \<Rightarrow> if onTransformDeps opts then [(dep, seen)] else [])))"

text \<open>
  The calls made while the statements of \<open>pre\<close> are scanned, last to first, when \<open>rest\<close>
  follows them in the body and \<open>decls\<close> is in the accumulator. The turn at index \<open>i\<close> is
  reached when no statement behind it throws; its call comes with the body and the
  accumulator of that moment, in which the statements up to and including this one are
  still the original ones.
\<close>

definition calls_at ::
  "path_module \<Rightarrow> IOpts \<Rightarrow> string \<Rightarrow> statement list \<Rightarrow> statement list \<Rightarrow> statement list \<Rightarrow> nat
     \<Rightarrow> (transform_dep \<times> statement list \<times> statement list) list" where
  "calls_at P opts filename pre rest decls i =
     (if \<exists>d\<in>set (drop (Suc i) pre). throws P opts d then []
      else notified P opts filename (pre ! i)
             (take (Suc i) pre @ retained P opts (drop (Suc i) pre) @ rest,
              generated P opts (drop (Suc i) pre) @ decls))"

definition expected_calls ::
  "path_module \<Rightarrow> IOpts \<Rightarrow> string \<Rightarrow> statement list \<Rightarrow> statement list \<Rightarrow> statement list
     \<Rightarrow> (transform_dep \<times> statement list \<times> statement list) list" where
  "expected_calls P opts filename pre rest decls =
     concat (map (calls_at P opts filename pre rest decls) (rev [0..<length pre]))"

text \<open>The import statements that the pass removes: those whose reference matches.\<close>

definition removed_imports :: "path_module \<Rightarrow> IOpts \<Rightarrow> statement list \<Rightarrow> statement list" where
  "removed_imports P opts program =
     filter (\<lambda>d. case d of ImportDeclaration specifiers src \<Rightarrow> matchLib P opts src = Inr True
                  | _ \<Rightarrow> False) program"

text \<open>
  The policy of the scenarios used as examples below: \<open>pkg\<close> listed in \<open>libs\<close>, the remote
  name \<open>mf\<close>, and the members \<open>a\<close> and \<open>b\<close> configured for \<open>export * from 'pkg'\<close>.
\<close>

definition scenario_opts :: IOpts where
  "scenario_opts =
     \<lparr>libs = Some [LibString ''pkg''], matchAll = None, remoteName = ''mf'',
      alias' = None, webpackAlias = None, onTransformDeps = True,
      exportAllMembers = Some [''pkg'' \<mapsto> [''a'', ''b'']]\<rparr>"

section \<open>The loop and the statement-by-statement account agree\<close>

lemma test_sublist: "test re s \<longleftrightarrow> sublist re s"
  by (induction s) (simp_all add: sublist_Cons_right)

lemma some_lib_error: "some_lib path xs = Inl e \<Longrightarrow> e = UnsupportedLibFormat"
  by (induction path xs rule: some_lib.induct) (simp_all split: if_splits)

lemma matchLib_error: "matchLib P opts src = Inl e \<Longrightarrow> e = UnsupportedLibFormat"
  by (auto simp: matchLib_def isMatchLib_def split: if_splits option.splits
        dest: some_lib_error)

lemma throws_failure: "\<not> throws P opts d \<longleftrightarrow> failure P opts d = None"
  by (simp add: throws_def)

lemma turn_at:
  assumes "\<not> throws P opts d"
  shows "Program_exit_turn P opts f (length ys)
           \<lparr>body = ys @ d # R, variableDeclarations = G, calls = C\<rparr> =
         Inr \<lparr>body = ys @ retained_of P opts d @ R,
              variableDeclarations = generated_by P opts d @ G,
              calls = C @ notified P opts f d (ys @ d # R, G)\<rparr>"
  using assms
  by (cases "d")
     (auto simp: Program_exit_turn_def throws_def failure_def reference_def matched_def
        generated_by_def retained_of_def dep_of_def notified_def notify_def unshift_def
        splice1_def Let_def
        split: sum.splits option.splits member_lookup.splits if_splits)

lemma turn_throws:
  assumes "failure P opts d = Some e"
  shows "\<exists>st'. Program_exit_turn P opts f (length ys)
           \<lparr>body = ys @ d # R, variableDeclarations = G, calls = C\<rparr> = Inl (e, st')
           \<and> calls st' = C @ notified P opts f d (ys @ d # R, G)"
  using assms
  by (cases "d")
     (auto simp: Program_exit_turn_def failure_def reference_def
        dep_of_def notified_def notify_def Let_def
        split: sum.splits option.splits member_lookup.splits if_splits)


lemma generated_snoc: "generated P opts (ys @ [d]) = generated P opts ys @ generated_by P opts d"
  by (simp add: generated_def)

lemma retained_snoc: "retained P opts (ys @ [d]) = retained P opts ys @ retained_of P opts d"
  by (simp add: retained_def)

lemma generated_append:
  "generated P opts (xs @ d # ys) = generated P opts xs @ generated_by P opts d @ generated P opts ys"
  by (simp add: generated_def)

lemma retained_append:
  "retained P opts (xs @ d # ys) = retained P opts xs @ retained_of P opts d @ retained P opts ys"
  by (simp add: retained_def)

lemma first_failure_snoc:
  "first_failure P opts (ys @ [d]) =
     (case failure P opts d of Some e \<Rightarrow> Some e | None \<Rightarrow> first_failure P opts ys)"
  by (induction ys) (simp_all split: option.splits)

lemma first_failure_None:
  "first_failure P opts xs = None \<longleftrightarrow> (\<forall>d\<in>set xs. \<not> throws P opts d)"
  by (induction xs) (auto simp: throws_def split: option.splits)

lemma first_failure_Some:
  "first_failure P opts xs = Some e \<longleftrightarrow>
     (\<exists>pre d post. xs = pre @ d # post \<and> failure P opts d = Some e
        \<and> (\<forall>d'\<in>set post. \<not> throws P opts d'))"
proof (induction xs rule: rev_induct)
  case Nil
  show ?case by simp
next
  case (snoc x xs)
  show ?case
  proof (cases "failure P opts x")
    case None
    have "(\<exists>pre d post. xs @ [x] = pre @ d # post \<and> failure P opts d = Some e
              \<and> (\<forall>d'\<in>set post. \<not> throws P opts d')) \<longleftrightarrow>
          (\<exists>pre d post. xs = pre @ d # post \<and> failure P opts d = Some e
              \<and> (\<forall>d'\<in>set post. \<not> throws P opts d'))"
    proof
      assume "\<exists>pre d post. xs @ [x] = pre @ d # post \<and> failure P opts d = Some e
              \<and> (\<forall>d'\<in>set post. \<not> throws P opts d')"
      then obtain pre d post where *: "xs @ [x] = pre @ d # post" "failure P opts d = Some e"
        "\<forall>d'\<in>set post. \<not> throws P opts d'" by blast
      show "\<exists>pre d post. xs = pre @ d # post \<and> failure P opts d = Some e
              \<and> (\<forall>d'\<in>set post. \<not> throws P opts d')"
      proof (cases post rule: rev_cases)
        case Nil
        with * None show ?thesis by simp
      next
        case (snoc post' y)
        with * have "xs = pre @ d # post'" "\<forall>d'\<in>set post'. \<not> throws P opts d'" by simp_all
        with * show ?thesis by blast
      qed
    next
      assume "\<exists>pre d post. xs = pre @ d # post \<and> failure P opts d = Some e
              \<and> (\<forall>d'\<in>set post. \<not> throws P opts d')"
      then obtain pre d post where *: "xs = pre @ d # post" "failure P opts d = Some e"
        "\<forall>d'\<in>set post. \<not> throws P opts d'" by blast
      with None have "xs @ [x] = pre @ d # (post @ [x]) \<and> failure P opts d = Some e
          \<and> (\<forall>d'\<in>set (post @ [x]). \<not> throws P opts d')"
        by (simp add: throws_def)
      then show "\<exists>pre d post. xs @ [x] = pre @ d # post \<and> failure P opts d = Some e
              \<and> (\<forall>d'\<in>set post. \<not> throws P opts d')" by blast
    qed
    with None snoc.IH show ?thesis by (simp add: first_failure_snoc)
  next
    case (Some e')
    have "(\<exists>pre d post. xs @ [x] = pre @ d # post \<and> failure P opts d = Some e
              \<and> (\<forall>d'\<in>set post. \<not> throws P opts d')) \<longleftrightarrow> e' = e"
    proof
      assume "\<exists>pre d post. xs @ [x] = pre @ d # post \<and> failure P opts d = Some e
              \<and> (\<forall>d'\<in>set post. \<not> throws P opts d')"
      then obtain pre d post where *: "xs @ [x] = pre @ d # post" "failure P opts d = Some e"
        "\<forall>d'\<in>set post. \<not> throws P opts d'" by blast
      show "e' = e"
      proof (cases post rule: rev_cases)
        case Nil
        with * Some show ?thesis by simp
      next
        case (snoc post' y)
        with * have "y = x" "\<not> throws P opts y" by simp_all
        with Some show ?thesis by (simp add: throws_def)
      qed
    next
      assume "e' = e"
      with Some have "xs @ [x] = xs @ x # [] \<and> failure P opts x = Some e
          \<and> (\<forall>d'\<in>set []. \<not> throws P opts d')" by simp
      then show "\<exists>pre d post. xs @ [x] = pre @ d # post \<and> failure P opts d = Some e
              \<and> (\<forall>d'\<in>set post. \<not> throws P opts d')" by blast
    qed
    with Some show ?thesis by (simp add: first_failure_snoc)
  qed
qed

lemma calls_at_snoc:
  assumes "i < length ys" and "\<not> throws P opts d"
  shows "calls_at P opts f (ys @ [d]) R G i =
         calls_at P opts f ys (retained_of P opts d @ R) (generated_by P opts d @ G) i"
  using assms
  by (simp add: calls_at_def nth_append generated_snoc retained_snoc)

lemma calls_at_behind_throw:
  assumes "i < length ys" and "throws P opts d"
  shows "calls_at P opts f (ys @ [d]) R G i = []"
  using assms by (simp add: calls_at_def)

lemma calls_at_last:
  "calls_at P opts f (ys @ [d]) R G (length ys) = notified P opts f d (ys @ d # R, G)"
  by (simp add: calls_at_def generated_def retained_def)

lemma expected_calls_snoc:
  assumes "\<not> throws P opts d"
  shows "expected_calls P opts f (ys @ [d]) R G =
     notified P opts f d (ys @ d # R, G)
     @ expected_calls P opts f ys (retained_of P opts d @ R) (generated_by P opts d @ G)"
proof -
  have eq: "map (calls_at P opts f (ys @ [d]) R G) (rev [0..<length ys]) =
        map (calls_at P opts f ys (retained_of P opts d @ R) (generated_by P opts d @ G))
          (rev [0..<length ys])"
    by (rule map_cong) (simp_all add: calls_at_snoc [OF _ assms])
  show ?thesis
    by (simp add: expected_calls_def calls_at_last eq)
qed

lemma expected_calls_snoc_throw:
  assumes "throws P opts d"
  shows "expected_calls P opts f (ys @ [d]) R G = notified P opts f d (ys @ d # R, G)"
proof -
  have eq: "map (calls_at P opts f (ys @ [d]) R G) (rev [0..<length ys]) =
        map (\<lambda>i. []) (rev [0..<length ys])"
    by (rule map_cong) (simp_all add: calls_at_behind_throw [OF _ assms])
  show ?thesis
    by (simp add: expected_calls_def calls_at_last eq)
qed

text \<open>
  The invariant of the backward scan: when the statements \<open>pre\<close> are still to be scanned
  and none of them throws, the scan of them leaves what they retain in their place, puts
  what they generate in front of the accumulator, and adds their calls. When one of them
  throws, the scan ends with the error of the last of them that throws, and the calls
  made up to the throw are those of the statements that were reached.
\<close>

lemma loop_completes:
  assumes "\<forall>d\<in>set pre. \<not> throws P opts d"
  shows "Program_exit_loop P opts f (length pre)
           \<lparr>body = pre @ R, variableDeclarations = G, calls = C\<rparr> =
         Inr \<lparr>body = retained P opts pre @ R,
              variableDeclarations = generated P opts pre @ G,
              calls = C @ expected_calls P opts f pre R G\<rparr>"
  using assms
proof (induction pre arbitrary: R G C rule: rev_induct)
  case Nil
  show ?case by (simp add: retained_def generated_def expected_calls_def)
next
  case (snoc d ys)
  have d: "\<not> throws P opts d" and ys: "\<forall>d\<in>set ys. \<not> throws P opts d"
    using snoc.prems by simp_all
  show ?case
    by (simp add: turn_at [OF d] snoc.IH [OF ys] generated_snoc retained_snoc
          expected_calls_snoc [OF d])
qed

lemma loop_throws:
  assumes "first_failure P opts pre = Some e"
  shows "\<exists>st'. Program_exit_loop P opts f (length pre)
           \<lparr>body = pre @ R, variableDeclarations = G, calls = C\<rparr> = Inl (e, st')
           \<and> calls st' = C @ expected_calls P opts f pre R G"
  using assms
proof (induction pre arbitrary: R G C rule: rev_induct)
  case Nil
  then show ?case by simp
next
  case (snoc d ys)
  show ?case
  proof (cases "failure P opts d")
    case (Some e')
    with snoc.prems have e: "e' = e" by (simp add: first_failure_snoc)
    from Some have t: "throws P opts d" by (simp add: throws_def)
    from turn_throws [OF Some, of f ys R G C] obtain st' where
      "Program_exit_turn P opts f (length ys)
           \<lparr>body = ys @ d # R, variableDeclarations = G, calls = C\<rparr> = Inl (e', st')"
      "calls st' = C @ notified P opts f d (ys @ d # R, G)" by blast
    then show ?thesis
      by (simp add: e expected_calls_snoc_throw [OF t])
  next
    case None
    then have d: "\<not> throws P opts d" by (simp add: throws_def)
    from None snoc.prems have "first_failure P opts ys = Some e"
      by (simp add: first_failure_snoc)
    from snoc.IH [OF this, of "retained_of P opts d @ R" "generated_by P opts d @ G"
        "C @ notified P opts f d (ys @ d # R, G)"]
    show ?thesis
      by (simp add: turn_at [OF d] expected_calls_snoc [OF d])
  qed
qed

lemma Program_exit_completes:
  assumes "\<forall>d\<in>set program. \<not> throws P opts d"
  shows "Program_exit P opts f program =
         Inr \<lparr>body = generated P opts program @ retained P opts program,
              variableDeclarations = generated P opts program,
              calls = expected_calls P opts f program [] []\<rparr>"
  using loop_completes [OF assms, of f "[]" "[]" "[]"]
  by (simp add: Program_exit_def Program_exit_run_def)

lemma Program_exit_throws:
  assumes "first_failure P opts program = Some e"
  shows "Program_exit P opts f program = Inl e"
  using loop_throws [OF assms, of f "[]" "[]" "[]"]
  by (auto simp: Program_exit_def Program_exit_run_def)

lemma Program_exit_calls_expected:
  "Program_exit_calls P opts f program = expected_calls P opts f program [] []"
proof (cases "first_failure P opts program")
  case None
  then have "\<forall>d\<in>set program. \<not> throws P opts d" by (simp add: first_failure_None)
  from loop_completes [OF this, of f "[]" "[]" "[]"] show ?thesis
    by (simp add: Program_exit_calls_def Program_exit_run_def)
next
  case (Some e)
  from loop_throws [OF this, of f "[]" "[]" "[]"] show ?thesis
    by (auto simp: Program_exit_calls_def Program_exit_run_def)
qed

lemma Program_exit_body:
  assumes "\<forall>d\<in>set program. \<not> throws P opts d"
  shows "\<exists>st. Program_exit P opts f program = Inr st
           \<and> body st = generated P opts program @ retained P opts program"
  by (simp add: Program_exit_completes [OF assms])

lemma Program_exit_Inl:
  "Program_exit P opts f program = Inl e \<longleftrightarrow> first_failure P opts program = Some e"
proof (cases "first_failure P opts program")
  case None
  then have "\<forall>d\<in>set program. \<not> throws P opts d" by (simp add: first_failure_None)
  with None show ?thesis by (simp add: Program_exit_completes)
next
  case (Some e')
  then show ?thesis by (auto simp: Program_exit_throws)
qed


lemma throws_append:
  "(\<forall>d\<in>set (pre @ d # post). \<not> throws P opts d) \<longleftrightarrow>
     \<not> throws P opts d \<and> (\<forall>d\<in>set (pre @ post). \<not> throws P opts d)"
  by auto

lemma find_split:
  "find Q xs = Some x \<longleftrightarrow> (\<exists>ys zs. xs = ys @ x # zs \<and> Q x \<and> (\<forall>y\<in>set ys. \<not> Q y))"
proof (induction xs)
  case Nil
  show ?case by simp
next
  case (Cons a xs)
  show ?case
  proof (cases "Q a")
    case True
    have "(\<exists>ys zs. a # xs = ys @ x # zs \<and> Q x \<and> (\<forall>y\<in>set ys. \<not> Q y)) \<longleftrightarrow> a = x"
    proof
      assume "\<exists>ys zs. a # xs = ys @ x # zs \<and> Q x \<and> (\<forall>y\<in>set ys. \<not> Q y)"
      then obtain ys zs where *: "a # xs = ys @ x # zs" "\<forall>y\<in>set ys. \<not> Q y" by blast
      show "a = x"
      proof (cases ys)
        case Nil
        with * show ?thesis by simp
      next
        case (Cons b ys')
        with * True show ?thesis by simp
      qed
    next
      assume "a = x"
      with True have "a # xs = [] @ x # xs \<and> Q x \<and> (\<forall>y\<in>set []. \<not> Q y)" by simp
      then show "\<exists>ys zs. a # xs = ys @ x # zs \<and> Q x \<and> (\<forall>y\<in>set ys. \<not> Q y)" by blast
    qed
    with True show ?thesis by simp
  next
    case False
    have "(\<exists>ys zs. a # xs = ys @ x # zs \<and> Q x \<and> (\<forall>y\<in>set ys. \<not> Q y)) \<longleftrightarrow>
          (\<exists>ys zs. xs = ys @ x # zs \<and> Q x \<and> (\<forall>y\<in>set ys. \<not> Q y))"
    proof
      assume "\<exists>ys zs. a # xs = ys @ x # zs \<and> Q x \<and> (\<forall>y\<in>set ys. \<not> Q y)"
      then obtain ys zs where *: "a # xs = ys @ x # zs" "Q x" "\<forall>y\<in>set ys. \<not> Q y" by blast
      show "\<exists>ys zs. xs = ys @ x # zs \<and> Q x \<and> (\<forall>y\<in>set ys. \<not> Q y)"
      proof (cases ys)
        case Nil
        with * False show ?thesis by simp
      next
        case (Cons b ys')
        with * have "xs = ys' @ x # zs \<and> Q x \<and> (\<forall>y\<in>set ys'. \<not> Q y)" by simp
        then show ?thesis by blast
      qed
    next
      assume "\<exists>ys zs. xs = ys @ x # zs \<and> Q x \<and> (\<forall>y\<in>set ys. \<not> Q y)"
      then obtain ys zs where *: "xs = ys @ x # zs" "Q x" "\<forall>y\<in>set ys. \<not> Q y" by blast
      with False have "a # xs = (a # ys) @ x # zs \<and> Q x \<and> (\<forall>y\<in>set (a # ys). \<not> Q y)"
        by simp
      then show "\<exists>ys zs. a # xs = ys @ x # zs \<and> Q x \<and> (\<forall>y\<in>set ys. \<not> Q y)" by blast
    qed
    with False Cons.IH show ?thesis by simp
  qed
qed

lemma getAlias_Cons:
  "getAlias P path (e # rest) =
     (if prefix (entry_prefix P e) path then Some (snd e) else getAlias P path rest)"
  by (cases e) (simp add: startsWith_def entry_prefix_def)

lemma getAlias_find:
  "getAlias P path wal = map_option snd (find (\<lambda>e. prefix (entry_prefix P e) path) wal)"
  by (induction wal) (simp_all add: getAlias_Cons del: getAlias.simps(2))

lemma length_retained:
  "length (retained P opts program) = length program - length (removed_imports P opts program)"
proof (induction program)
  case Nil
  show ?case by (simp add: retained_def removed_imports_def)
next
  case (Cons d program)
  have le: "length (removed_imports P opts program) \<le> length program"
    by (simp add: removed_imports_def)
  have "length (retained_of P opts d) =
        (if (case d of ImportDeclaration specifiers src \<Rightarrow> matchLib P opts src = Inr True
              | _ \<Rightarrow> False) then 0 else 1)"
    by (cases d)
       (auto simp: retained_of_def matched_def reference_def
          split: option.splits member_lookup.splits)
  with Cons.IH le show ?case
    by (simp add: retained_def removed_imports_def)
qed




text \<open>The scenario policy, evaluated.\<close>

lemma scenario_match:
  "matchLib posix scenario_opts ''pkg'' = Inr True"
  "matchLib posix scenario_opts ''./local'' = Inr False"
  by (simp_all add: matchLib_def isMatchLib_def scenario_opts_def or_empty_def Object_keys_def)

lemma scenario_members:
  "members_of scenario_opts ''pkg'' = Members [''a'', ''b'']"
  by (simp add: members_of_def scenario_opts_def)

lemma scenario_callback: "onTransformDeps scenario_opts"
  by (simp add: scenario_opts_def)

lemma scenario_remote:
  "remotePath scenario_opts ''pkg'' = ''mf/pkg''"
  by (simp add: remotePath_def scenario_opts_def or_empty_def)

lemmas eval_stmt = throws_def failure_def matched_def reference_def generated_by_def
  retained_of_def generated_def retained_def specifiersToProperties_def scenario_match
  scenario_members scenario_remote


lemma specifiersToProperties_error:
  "specifiersToProperties specifiers = Inl e \<Longrightarrow> e = TypeError"
proof -
  have "reduce m specifiers = Inl e \<Longrightarrow> e = TypeError" for m
  proof (induction specifiers arbitrary: m)
    case Nil
    then show ?case by simp
  next
    case (Cons s specifiers)
    then show ?case by (cases s) (simp_all split: sum.splits)
  qed
  then show "specifiersToProperties specifiers = Inl e \<Longrightarrow> e = TypeError"
    by (simp add: specifiersToProperties_def)
qed


lemma failure_config:
  "failure P opts d = Some UnsupportedLibFormat \<longleftrightarrow>
     (\<exists>src. reference d = Some src \<and> matchLib P opts src = Inl UnsupportedLibFormat)"
  by (cases d)
     (auto simp: failure_def reference_def
        split: option.splits sum.splits if_splits
        dest: specifiersToProperties_error matchLib_error)

lemma first_failure_at:
  assumes "\<forall>d'\<in>set post. \<not> throws P opts d'"
  shows "first_failure P opts (pre @ d # post) =
           (case failure P opts d of Some e \<Rightarrow> Some e | None \<Rightarrow> first_failure P opts pre)"
  using assms
proof (induction post rule: rev_induct)
  case Nil
  show ?case by (simp add: first_failure_snoc)
next
  case (snoc x post)
  then have "failure P opts x = None" by (simp add: throws_def)
  with snoc show ?case
    using first_failure_snoc [of P opts "pre @ d # post" x] by simp
qed

section \<open>Matching in wildcard mode (C1)\<close>

text \<open>
  C1 says that a bare specifier whose resolution succeeds is judged by the marker test
  on the resolved value. The code tests \<open>if (aliasPath)\<close>, which is false for the empty
  string too: with the entry \<open>foo\<close> resolved to the empty string, \<open>foo/bar\<close> resolves (to
  a value without a marker) and still matches.
\<close>

theorem isMatchLib_empty_alias_counterexample:
  "''foo/bar'' \<noteq> ''umi'' \<and> ''foo/bar'' \<noteq> ''dumi'' \<and> \<not> isAbsolute posix ''foo/bar''
   \<and> \<not> prefix ''.'' ''foo/bar''
   \<and> getAlias posix ''foo/bar'' [(''foo'', '''')] = Some ''''
   \<and> \<not> (sublist ''node_modules'' '''' \<or> sublist ''umi/packages/'' '''')
   \<and> isMatchLib posix ''foo/bar'' None (Some True) [] [(''foo'', '''')] = Inr True"
  by (simp add: isMatchLib_def posix_def posix_isAbsolute_def posix_extname_def
        posix_last_part_def isJSFile_def addLastSlash_def startsWith_def endsWith_def
        suffix_def)

text \<open>
  C1, as the code has it. With \<open>matchAll\<close> true, \<open>isMatchLib\<close> returns false for \<open>umi\<close> and
  \<open>dumi\<close>; otherwise, for an absolute path, true exactly when the path contains the text
  \<open>node_modules\<close> or the text \<open>umi/packages/\<close>; otherwise false for a path that begins with
  a dot; otherwise it resolves the path through \<open>webpackAlias\<close> and returns true when
  nothing resolves or the resolved value is the empty string, and else the answer of the
  same marker test on the resolved value. (To contain is to contain as a run of
  characters, which is what the two regular expressions test.)
\<close>

theorem isMatchLib_wildcard:
  "isMatchLib P path ls (Some True) al wal =
     Inr (if path = ''umi'' \<or> path = ''dumi'' then False
          else if isAbsolute P path
          then sublist ''node_modules'' path \<or> sublist ''umi/packages/'' path
          else if prefix ''.'' path then False
          else (case getAlias P path wal of
                  None \<Rightarrow> True
                | Some resolved \<Rightarrow>
                    if resolved = [] then True
                    else sublist ''node_modules'' resolved \<or> sublist ''umi/packages/'' resolved))"
proof -
  have dot: "take 1 path = ''.'' \<longleftrightarrow> prefix ''.'' path"
    by (cases path) auto
  show ?thesis
    by (simp add: isMatchLib_def test_sublist [symmetric] RE_NODE_MODULES_def
          RE_UMI_LOCAL_DEV_def dot [symmetric] split: option.splits)
qed

theorem isMatchLib_wildcard_witness:
  "isMatchLib posix ''umi'' None (Some True) [] [] = Inr False
   \<and> isMatchLib posix ''./local'' None (Some True) [] [] = Inr False
   \<and> isMatchLib posix ''/abs/path/node_modules/x'' None (Some True) [] [] = Inr True
   \<and> isMatchLib posix ''/abs/src/x'' None (Some True) [] [] = Inr False
   \<and> isMatchLib posix ''@/x'' None (Some True) [] [(''@'', ''/abs/src'')] = Inr False
   \<and> isMatchLib posix ''react'' None (Some True) [] [(''@'', ''/abs/src'')] = Inr True"
proof -
  have a: "isAbsolute posix ''/abs/path/node_modules/x''" "isAbsolute posix ''/abs/src/x''"
    "\<not> isAbsolute posix ''./local''" "\<not> isAbsolute posix ''@/x''" "\<not> isAbsolute posix ''react''"
    by (simp_all add: posix_def posix_isAbsolute_def)
  have g: "getAlias posix ''@/x'' [(''@'', ''/abs/src'')] = Some ''/abs/src''"
    "getAlias posix ''react'' [(''@'', ''/abs/src'')] = None"
    by (simp_all add: posix_def posix_extname_def posix_last_part_def isJSFile_def
          addLastSlash_def startsWith_def endsWith_def suffix_def)
  have s: "sublist ''node_modules'' ''/abs/path/node_modules/x''"
    "\<not> sublist ''node_modules'' ''/abs/src/x''" "\<not> sublist ''umi/packages/'' ''/abs/src/x''"
    "\<not> sublist ''node_modules'' ''/abs/src''" "\<not> sublist ''umi/packages/'' ''/abs/src''"
    by (simp_all add: test_sublist [symmetric])
  show ?thesis
    using isMatchLib_wildcard [of posix "''umi''" None "[]" "[]"]
      isMatchLib_wildcard [of posix "''./local''" None "[]" "[]"]
      isMatchLib_wildcard [of posix "''/abs/path/node_modules/x''" None "[]" "[]"]
      isMatchLib_wildcard [of posix "''/abs/src/x''" None "[]" "[]"]
      isMatchLib_wildcard [of posix "''@/x''" None "[]" "[(''@'', ''/abs/src'')]"]
      isMatchLib_wildcard [of posix "''react''" None "[]" "[(''@'', ''/abs/src'')]"]
    by (simp add: a g s del: getAlias.simps)
qed

section \<open>The order of the output (C2)\<close>

text \<open>
  C2. A pass either throws (when the turn at some statement throws; the error is that of
  the last such statement, the first that the scan meets) or returns a body that is: the
  declarations generated for the first statement, then those for the second, and so on
  in the order of the source, followed by what each statement leaves behind (itself,
  its replacement, or nothing), again in the order of the source. What is generated is
  a list of \<open>const\<close> declarations, and a statement leaves at most one statement behind.
  The scan itself runs from the last statement to the first.
\<close>

theorem declarations_first_in_source_order:
  "(if \<exists>d\<in>set program. throws P opts d
    then \<exists>e. first_failure P opts program = Some e
           \<and> Program_exit P opts f program = Inl e
    else \<exists>st. Program_exit P opts f program = Inr st
           \<and> body st = concat (map (generated_by P opts) program)
                        @ concat (map (retained_of P opts) program))
   \<and> (\<forall>g\<in>set (generated_by P opts d). \<exists>ident init. g = const ident init)
   \<and> length (retained_of P opts d) \<le> 1"
proof -
  have "list_all (\<lambda>g. \<exists>ident init. g = const ident init) (generated_by P opts d)"
    by (cases d)
       (auto simp: generated_by_def Let_def
          split: option.split sum.split member_lookup.split)
  then have 1: "\<forall>g\<in>set (generated_by P opts d). \<exists>ident init. g = const ident init"
    by (simp add: list_all_iff)
  have 2: "length (retained_of P opts d) \<le> 1"
    by (cases d) (auto simp: retained_of_def split: option.splits member_lookup.splits)
  have 3: "\<exists>e. first_failure P opts program = Some e
           \<and> Program_exit P opts f program = Inl e"
    if "\<exists>d\<in>set program. throws P opts d"
  proof -
    from that have "first_failure P opts program \<noteq> None"
      by (simp add: first_failure_None)
    then obtain e where "first_failure P opts program = Some e" by blast
    then show ?thesis by (simp add: Program_exit_throws)
  qed
  have 4: "\<exists>st. Program_exit P opts f program = Inr st
           \<and> body st = concat (map (generated_by P opts) program)
                        @ concat (map (retained_of P opts) program)"
    if "\<not> (\<exists>d\<in>set program. throws P opts d)"
    using that Program_exit_body [of program P opts f]
    by (simp add: generated_def retained_def)
  from 1 2 3 4 show ?thesis by simp
qed

theorem declarations_first_in_source_order_witness:
  "\<exists>st. Program_exit posix scenario_opts ''f.js''
          [ImportDeclaration [ImportDefaultSpecifier ''Default'', ImportNamespaceSpecifier ''ns'']
             ''pkg'',
           OtherStatement ''x'',
           ExportAllDeclaration ''pkg'',
           ImportDeclaration [ImportSpecifier ''y'' ''z''] ''./local'',
           ExportNamedDeclaration None [ExportSpecifier ''a'' ''b''] (Some ''pkg'')] = Inr st
        \<and> body st =
          [const (Identifier ''ns'') (awaitImport ''mf/pkg''),
           const (ObjectPattern [(''default'', ''Default'')]) (Identifier ''ns''),
           const (Identifier ''__all_exports'') (awaitImport ''mf/pkg''),
           const (ObjectPattern [(''a'', ''b'')]) (awaitImport ''mf/pkg''),
           OtherStatement ''x'',
           ExportNamedDeclaration
             (Some (const (ObjectPattern [(''a'', ''a''), (''b'', ''b'')])
                      (Identifier ''__all_exports'')))
             [] None,
           ImportDeclaration [ImportSpecifier ''y'' ''z''] ''./local'',
           ExportNamedDeclaration None [ExportSpecifier ''a'' ''b''] None]"
  using declarations_first_in_source_order
          [of "[ImportDeclaration [ImportDefaultSpecifier ''Default'', ImportNamespaceSpecifier ''ns'']
             ''pkg'',
           OtherStatement ''x'',
           ExportAllDeclaration ''pkg'',
           ImportDeclaration [ImportSpecifier ''y'' ''z''] ''./local'',
           ExportNamedDeclaration None [ExportSpecifier ''a'' ''b''] (Some ''pkg'')]"
            posix scenario_opts "''f.js''" "OtherStatement ''x''"]
  by (simp add: eval_stmt)

section \<open>Matched imports (C3)\<close>



section \<open>Statements whose reference does not match (C4)\<close>

text \<open>
  C4. When the match test answers false for a reference: a statement of \<open>Program.exit\<close>
  with that reference (import, \<open>export * from\<close>, \<open>export { } from\<close>) stands unchanged in
  the output, between what the statements before it and after it leave behind, and
  nothing is generated for it; and \<open>CallExpression.exit\<close> leaves a dynamic \<open>import()\<close> of
  that reference as the same node.
\<close>

theorem unmatched_statement_unchanged:
  assumes "matchLib P opts src = Inr False"
  shows "(reference d = Some src \<and> (\<forall>d'\<in>set (pre @ post). \<not> throws P opts d') \<longrightarrow>
            (\<exists>st. Program_exit P opts f (pre @ d # post) = Inr st
               \<and> body st = (generated P opts pre @ generated P opts post)
                            @ (retained P opts pre @ d # retained P opts post)))
         \<and> (\<exists>cs. CallExpression_exit P opts f (CallExpression Import [StringLiteral src])
                  = Inr (CallExpression Import [StringLiteral src], cs))"
proof -
  have call: "\<exists>cs. CallExpression_exit P opts f (CallExpression Import [StringLiteral src])
                  = Inr (CallExpression Import [StringLiteral src], cs)"
    using assms by (simp add: CallExpression_exit_def CallExpression_exit_run_def)
  have "\<exists>st. Program_exit P opts f (pre @ d # post) = Inr st
               \<and> body st = (generated P opts pre @ generated P opts post)
                            @ (retained P opts pre @ d # retained P opts post)"
    if r: "reference d = Some src" and o: "\<forall>d'\<in>set (pre @ post). \<not> throws P opts d'"
  proof -
    have m: "\<not> matched P opts d" and t: "\<not> throws P opts d"
      using assms r by (simp_all add: matched_def throws_def failure_def)
    have "\<forall>d'\<in>set (pre @ d # post). \<not> throws P opts d'"
      using t o by (simp only: throws_append) simp
    from Program_exit_body [OF this, of f] obtain st where
      st: "Program_exit P opts f (pre @ d # post) = Inr st"
          "body st = generated P opts (pre @ d # post) @ retained P opts (pre @ d # post)"
      by blast
    with m show ?thesis
      by (simp add: generated_append retained_append generated_by_def retained_of_def)
  qed
  with call show ?thesis by blast
qed

theorem unmatched_statement_unchanged_witness:
  "(\<exists>st. Program_exit posix scenario_opts ''f.js''
           [ImportDeclaration [ImportNamespaceSpecifier ''ns''] ''pkg'',
            ImportDeclaration [ImportSpecifier ''y'' ''z''] ''./local'',
            OtherStatement ''x''] = Inr st
         \<and> body st =
           [const (Identifier ''ns'') (awaitImport ''mf/pkg''),
            ImportDeclaration [ImportSpecifier ''y'' ''z''] ''./local'',
            OtherStatement ''x''])
   \<and> (\<exists>cs. CallExpression_exit posix scenario_opts ''f.js''
              (CallExpression Import [StringLiteral ''./local''])
            = Inr (CallExpression Import [StringLiteral ''./local''], cs))"
proof -
  have m: "matchLib posix scenario_opts ''./local'' = Inr False"
    by (rule scenario_match)
  have r: "reference (ImportDeclaration [ImportSpecifier ''y'' ''z''] ''./local'') = Some ''./local''"
    by (simp add: reference_def)
  have o: "\<forall>d'\<in>set ([ImportDeclaration [ImportNamespaceSpecifier ''ns''] ''pkg'']
              @ [OtherStatement ''x'']). \<not> throws posix scenario_opts d'"
    by (simp add: throws_def failure_def reference_def scenario_match
          specifiersToProperties_def)
  show ?thesis
    using unmatched_statement_unchanged [OF m,
        of "ImportDeclaration [ImportSpecifier ''y'' ''z''] ''./local''"
           "[ImportDeclaration [ImportNamespaceSpecifier ''ns''] ''pkg'']"
           "[OtherStatement ''x'']" "''f.js''"] r o
    by (simp add: eval_stmt)
qed

section \<open>An entry of libs of another kind (C5)\<close>




section \<open>The calls of the callback (C6)\<close>

text \<open>
  C6 says that \<open>isMatch\<close> is the outcome of the match test for every kind of reference.
  For \<open>export * from\<close> the code passes the constant \<open>false\<close> together with
  \<open>isExportAllDeclaration: true\<close>: here the match test answers true, the statement is
  rewritten, and the call carries \<open>isMatch = False\<close>.
\<close>

theorem notification_isMatch_counterexample:
  "matchLib posix scenario_opts ''pkg'' = Inr True
   \<and> Program_exit posix scenario_opts ''f.js'' [ExportAllDeclaration ''pkg''] =
     Inr \<lparr>body =
            [const (Identifier ''__all_exports'') (awaitImport ''mf/pkg''),
             ExportNamedDeclaration
               (Some (const (ObjectPattern [(''a'', ''a''), (''b'', ''b'')])
                        (Identifier ''__all_exports'')))
               [] None],
          variableDeclarations =
            [const (Identifier ''__all_exports'') (awaitImport ''mf/pkg'')],
          calls = [(\<lparr>source = ''pkg'', file' = ''f.js'', isMatch = False,
                     isExportAllDeclaration = Some True\<rparr>,
                    [ExportAllDeclaration ''pkg''], [])]\<rparr>"
  by (simp add: Program_exit_def Program_exit_run_def Program_exit_turn_def scenario_match
        scenario_remote scenario_members notify_def unshift_def scenario_callback)

text \<open>
  C6, as the code has it, for every pass, also one that ends in a throw. The scan
  reaches the statement at index \<open>i\<close> when no statement behind it throws. For each
  statement that it reaches, that has a reference and whose match test returns, the
  callback (when supplied) is called once, in the order of the scan (last statement
  first), with the reference, the file name, and as \<open>isMatch\<close> the outcome of the match
  test for an import and for \<open>export { } from\<close>, but always \<open>false\<close>, with
  \<open>isExportAllDeclaration\<close> set, for \<open>export * from\<close>. When the match test throws, the
  callback is not called for that reference, and the statements in front of it are not
  reached. At the moment of the call for the statement at index \<open>i\<close>, the body still
  holds the original statements up to and including \<open>i\<close>, and the accumulator holds only
  what later statements generated: the call comes before the rewrite of its statement.
  The calls that a completed pass returns are these calls. \<open>CallExpression.exit\<close> calls
  the callback once for a dynamic \<open>import()\<close> of a string whose match test returns, with
  its outcome, on the node as it was, and not at all when the match test throws. Without
  a callback there is no call.
\<close>

theorem notification_calls:
  "Program_exit_calls P opts f program =
     (if onTransformDeps opts then
        concat (map (\<lambda>i.
          if \<exists>d\<in>set (drop (Suc i) program). throws P opts d then []
          else
            let seen = (take (Suc i) program @ retained P opts (drop (Suc i) program),
                        generated P opts (drop (Suc i) program))
            in case program ! i of
                 ImportDeclaration specifiers src \<Rightarrow>
                   (case matchLib P opts src of
                      Inl e \<Rightarrow> []
                    | Inr m \<Rightarrow>
                        [(\<lparr>source = src, file' = f, isMatch = m,
                           isExportAllDeclaration = None\<rparr>, seen)])
               | ExportAllDeclaration src \<Rightarrow>
                   (case matchLib P opts src of
                      Inl e \<Rightarrow> []
                    | Inr m \<Rightarrow>
                        [(\<lparr>source = src, file' = f, isMatch = False,
                           isExportAllDeclaration = Some True\<rparr>, seen)])
               | ExportNamedDeclaration declaration specifiers (Some src) \<Rightarrow>
                   (case matchLib P opts src of
                      Inl e \<Rightarrow> []
                    | Inr m \<Rightarrow>
                        [(\<lparr>source = src, file' = f, isMatch = m,
                           isExportAllDeclaration = None\<rparr>, seen)])
               | _ \<Rightarrow> [])
          (rev [0..<length program]))
      else [])
   \<and> (\<forall>st. Program_exit P opts f program = Inr st \<longrightarrow>
         calls st = Program_exit_calls P opts f program)
   \<and> CallExpression_exit_calls P opts f (CallExpression Import [StringLiteral val]) =
       (case matchLib P opts val of
          Inl e \<Rightarrow> []
        | Inr m \<Rightarrow>
            if onTransformDeps opts then
              [(\<lparr>source = val, file' = f, isMatch = m, isExportAllDeclaration = None\<rparr>,
                CallExpression Import [StringLiteral val])]
            else [])"
proof -
  let ?F = "\<lambda>i.
          if \<exists>d\<in>set (drop (Suc i) program). throws P opts d then []
          else
            let seen = (take (Suc i) program @ retained P opts (drop (Suc i) program),
                        generated P opts (drop (Suc i) program))
            in case program ! i of
                 ImportDeclaration specifiers src \<Rightarrow>
                   (case matchLib P opts src of
                      Inl e \<Rightarrow> []
                    | Inr m \<Rightarrow>
                        [(\<lparr>source = src, file' = f, isMatch = m,
                           isExportAllDeclaration = None\<rparr>, seen)])
               | ExportAllDeclaration src \<Rightarrow>
                   (case matchLib P opts src of
                      Inl e \<Rightarrow> []
                    | Inr m \<Rightarrow>
                        [(\<lparr>source = src, file' = f, isMatch = False,
                           isExportAllDeclaration = Some True\<rparr>, seen)])
               | ExportNamedDeclaration declaration specifiers (Some src) \<Rightarrow>
                   (case matchLib P opts src of
                      Inl e \<Rightarrow> []
                    | Inr m \<Rightarrow>
                        [(\<lparr>source = src, file' = f, isMatch = m,
                           isExportAllDeclaration = None\<rparr>, seen)])
               | _ \<Rightarrow> []"
  have n: "notified P opts f d seen =
      (if onTransformDeps opts then
         (case d of
            ImportDeclaration specifiers src \<Rightarrow>
              (case matchLib P opts src of
                 Inl e \<Rightarrow> []
               | Inr m \<Rightarrow>
                   [(\<lparr>source = src, file' = f, isMatch = m,
                      isExportAllDeclaration = None\<rparr>, seen)])
          | ExportAllDeclaration src \<Rightarrow>
              (case matchLib P opts src of
                 Inl e \<Rightarrow> []
               | Inr m \<Rightarrow>
                   [(\<lparr>source = src, file' = f, isMatch = False,
                      isExportAllDeclaration = Some True\<rparr>, seen)])
          | ExportNamedDeclaration declaration specifiers (Some src) \<Rightarrow>
              (case matchLib P opts src of
                 Inl e \<Rightarrow> []
               | Inr m \<Rightarrow>
                   [(\<lparr>source = src, file' = f, isMatch = m,
                      isExportAllDeclaration = None\<rparr>, seen)])
          | _ \<Rightarrow> [])
       else [])" for d and seen :: "statement list \<times> statement list"
    by (cases d)
       (simp_all add: notified_def dep_of_def reference_def split: option.splits sum.splits)
  have "calls_at P opts f program [] [] i = (if onTransformDeps opts then ?F i else [])" for i
    by (simp add: calls_at_def n Let_def)
  then have at: "calls_at P opts f program [] [] = (\<lambda>i. if onTransformDeps opts then ?F i else [])"
    by (rule ext)
  have prog: "Program_exit_calls P opts f program =
          (if onTransformDeps opts then concat (map ?F (rev [0..<length program])) else [])"
    by (simp add: Program_exit_calls_expected expected_calls_def at)
  have same: "\<forall>st. Program_exit P opts f program = Inr st \<longrightarrow>
         calls st = Program_exit_calls P opts f program"
    by (auto simp: Program_exit_def Program_exit_calls_def split: sum.splits prod.splits)
  have call: "CallExpression_exit_calls P opts f (CallExpression Import [StringLiteral val]) =
       (case matchLib P opts val of
          Inl e \<Rightarrow> []
        | Inr m \<Rightarrow>
            if onTransformDeps opts then
              [(\<lparr>source = val, file' = f, isMatch = m, isExportAllDeclaration = None\<rparr>,
                CallExpression Import [StringLiteral val])]
            else [])"
    by (simp add: CallExpression_exit_calls_def CallExpression_exit_run_def notify_def
          Let_def split: sum.splits)
  from prog same call show ?thesis by blast
qed

theorem notification_calls_witness:
  "Program_exit_calls posix scenario_opts ''f.js''
     [ImportDeclaration [ImportNamespaceSpecifier ''ns''] ''pkg'',
      ImportDeclaration [ImportSpecifier ''y'' ''z''] ''./local'',
      ExportAllDeclaration ''pkg''] =
     [(\<lparr>source = ''pkg'', file' = ''f.js'', isMatch = False,
        isExportAllDeclaration = Some True\<rparr>,
       [ImportDeclaration [ImportNamespaceSpecifier ''ns''] ''pkg'',
        ImportDeclaration [ImportSpecifier ''y'' ''z''] ''./local'',
        ExportAllDeclaration ''pkg''],
       []),
      (\<lparr>source = ''./local'', file' = ''f.js'', isMatch = False,
        isExportAllDeclaration = None\<rparr>,
       [ImportDeclaration [ImportNamespaceSpecifier ''ns''] ''pkg'',
        ImportDeclaration [ImportSpecifier ''y'' ''z''] ''./local'',
        ExportNamedDeclaration
          (Some (const (ObjectPattern [(''a'', ''a''), (''b'', ''b'')])
                   (Identifier ''__all_exports'')))
          [] None],
       [const (Identifier ''__all_exports'') (awaitImport ''mf/pkg'')]),
      (\<lparr>source = ''pkg'', file' = ''f.js'', isMatch = True,
        isExportAllDeclaration = None\<rparr>,
       [ImportDeclaration [ImportNamespaceSpecifier ''ns''] ''pkg'',
        ImportDeclaration [ImportSpecifier ''y'' ''z''] ''./local'',
        ExportNamedDeclaration
          (Some (const (ObjectPattern [(''a'', ''a''), (''b'', ''b'')])
                   (Identifier ''__all_exports'')))
          [] None],
       [const (Identifier ''__all_exports'') (awaitImport ''mf/pkg'')])]
   \<and> Program_exit_calls posix (scenario_opts\<lparr>libs := Some [LibString ''pkg'', LibOther]\<rparr>)
       ''f.js''
       [ImportDeclaration [ImportNamespaceSpecifier ''ns''] ''pkg'',
        ImportDeclaration [ImportSpecifier ''y'' ''z''] ''other'',
        ExportAllDeclaration ''pkg''] =
     [(\<lparr>source = ''pkg'', file' = ''f.js'', isMatch = False,
        isExportAllDeclaration = Some True\<rparr>,
       [ImportDeclaration [ImportNamespaceSpecifier ''ns''] ''pkg'',
        ImportDeclaration [ImportSpecifier ''y'' ''z''] ''other'',
        ExportAllDeclaration ''pkg''],
       [])]
   \<and> CallExpression_exit_calls posix scenario_opts ''f.js''
       (CallExpression Import [StringLiteral ''pkg'']) =
     [(\<lparr>source = ''pkg'', file' = ''f.js'', isMatch = True,
        isExportAllDeclaration = None\<rparr>,
       CallExpression Import [StringLiteral ''pkg''])]"
proof -
  let ?O = "scenario_opts\<lparr>libs := Some [LibString ''pkg'', LibOther]\<rparr>"
  have m: "matchLib posix ?O ''pkg'' = Inr True"
    "matchLib posix ?O ''other'' = Inl UnsupportedLibFormat"
    by (simp_all add: matchLib_def isMatchLib_def scenario_opts_def or_empty_def
          Object_keys_def)
  have o: "members_of ?O ''pkg'' = Members [''a'', ''b'']"
    "remotePath ?O ''pkg'' = ''mf/pkg''" "onTransformDeps ?O"
    by (simp_all add: members_of_def remotePath_def scenario_opts_def or_empty_def)
  show ?thesis
    using notification_calls [of posix scenario_opts "''f.js''"
        "[ImportDeclaration [ImportNamespaceSpecifier ''ns''] ''pkg'',
          ImportDeclaration [ImportSpecifier ''y'' ''z''] ''./local'',
          ExportAllDeclaration ''pkg'']" "''pkg''"]
      notification_calls [of posix ?O "''f.js''"
        "[ImportDeclaration [ImportNamespaceSpecifier ''ns''] ''pkg'',
          ImportDeclaration [ImportSpecifier ''y'' ''z''] ''other'',
          ExportAllDeclaration ''pkg'']" "''pkg''"]
    by (simp add: eval_stmt scenario_callback m o)
qed

section \<open>Blanket re-exports (C7)\<close>

text \<open>
  What the code does with \<open>export * from src\<close>, anywhere in a program in which no other
  statement throws. When the reference does not match, or \<open>exportAllMembers\<close> finds
  nothing for it, the statement stays as it is and nothing is generated. When the
  reference matches and \<open>exportAllMembers\<close> has an entry of its own for it, the
  declaration \<open>const __all_exports = await import(remotePath)\<close> is generated (in the
  order of the source among the declarations) and the statement is replaced, at its
  place, by \<open>export const { m1, m2, \<dots> } = __all_exports\<close> with the configured members
  in their order. When the reference matches and is not an entry but the name of a member
  of \<open>Object.prototype\<close>, the pass throws a \<open>TypeError\<close>.
\<close>

lemma export_all_rewrite:
  assumes "matchLib P opts src = Inr m"
    and "\<forall>d\<in>set (pre @ post). \<not> throws P opts d"
  shows "if m \<and> members_of opts src = InheritedMember
         then Program_exit P opts f (pre @ ExportAllDeclaration src # post) = Inl TypeError
         else
           \<exists>st. Program_exit P opts f (pre @ ExportAllDeclaration src # post) = Inr st
             \<and> body st =
               (case members_of opts src of
                  Members members \<Rightarrow>
                    if m then
                      generated P opts pre
                      @ [const (Identifier ''__all_exports'') (awaitImport (remotePath opts src))]
                      @ generated P opts post
                      @ retained P opts pre
                      @ [ExportNamedDeclaration
                           (Some (const (ObjectPattern (map (\<lambda>m. (m, m)) members))
                                    (Identifier ''__all_exports'')))
                           [] None]
                      @ retained P opts post
                    else
                      generated P opts pre @ generated P opts post
                      @ retained P opts pre @ [ExportAllDeclaration src] @ retained P opts post
                | _ \<Rightarrow>
                    generated P opts pre @ generated P opts post
                    @ retained P opts pre @ [ExportAllDeclaration src] @ retained P opts post)"
proof (cases "m \<and> members_of opts src = InheritedMember")
  case True
  let ?d = "ExportAllDeclaration src"
  have post: "\<forall>d'\<in>set post. \<not> throws P opts d'"
    using assms(2) by simp
  have "failure P opts ?d = Some TypeError"
    using assms(1) True by (simp add: failure_def reference_def)
  then have "first_failure P opts (pre @ ?d # post) = Some TypeError"
    by (simp add: first_failure_at [OF post])
  then have "Program_exit P opts f (pre @ ?d # post) = Inl TypeError"
    by (rule Program_exit_throws)
  with True show ?thesis by simp
next
  case False
  let ?d = "ExportAllDeclaration src"
  have m: "matched P opts ?d = m" and t: "\<not> throws P opts ?d"
    using assms(1) False by (simp_all add: matched_def throws_def failure_def reference_def)
  have "\<forall>d\<in>set (pre @ ?d # post). \<not> throws P opts d"
    using t assms(2) by (simp only: throws_append) simp
  from Program_exit_body [OF this, of f] obtain st where
    st: "Program_exit P opts f (pre @ ?d # post) = Inr st"
        "body st = generated P opts (pre @ ?d # post) @ retained P opts (pre @ ?d # post)"
    by blast
  with m False show ?thesis
    by (auto simp: generated_append retained_append generated_by_def retained_of_def
          split: member_lookup.splits)
qed

text \<open>
  C7 says that a blanket re-export without a configured member list is retained
  unchanged. The code looks the source up with \<open>opts.exportAllMembers?.[source]\<close>, which
  also finds what the object inherits: with \<open>constructor\<close> in \<open>libs\<close> and an
  \<open>exportAllMembers\<close> without any entry, \<open>export * from 'constructor'\<close> matches, has no
  configured member list, and the pass throws a \<open>TypeError\<close> instead of retaining the
  statement.
\<close>

theorem export_all_inherited_member:
  "matchLib posix
     (scenario_opts\<lparr>libs := Some [LibString ''constructor''],
                    exportAllMembers := Some Map.empty\<rparr>) ''constructor'' = Inr True
   \<and> Map.empty ''constructor'' = (None :: string list option)
   \<and> Program_exit posix
       (scenario_opts\<lparr>libs := Some [LibString ''constructor''],
                      exportAllMembers := Some Map.empty\<rparr>)
       ''f.js'' [ExportAllDeclaration ''constructor''] = Inl TypeError"
proof -
  let ?O = "scenario_opts\<lparr>libs := Some [LibString ''constructor''],
                          exportAllMembers := Some Map.empty\<rparr>"
  have m: "matchLib posix ?O ''constructor'' = Inr True"
    by (simp add: matchLib_def isMatchLib_def scenario_opts_def or_empty_def Object_keys_def)
  have i: "members_of ?O ''constructor'' = InheritedMember"
    by (simp add: members_of_def Object_prototype_members_def)
  have "Program_exit posix ?O ''f.js'' [ExportAllDeclaration ''constructor''] = Inl TypeError"
    by (simp add: Program_exit_def Program_exit_run_def Program_exit_turn_def m i)
  with m show ?thesis by simp
qed

section \<open>Alias resolution (C8)\<close>

text \<open>
  C8 says that an entry whose replacement is a source file is matched exactly. The code
  compares with \<open>startsWith\<close> in both cases: with the replacement \<open>/x/foo.js\<close>, the key
  \<open>foo\<close> resolves \<open>foobar\<close>, which is not the key.
\<close>

theorem getAlias_exact_match_counterexample:
  "isJSFile posix ''/x/foo.js'' \<and> ''foobar'' \<noteq> ''foo''
   \<and> getAlias posix ''foobar'' [(''foo'', ''/x/foo.js'')] = Some ''/x/foo.js''"
  by (simp add: isJSFile_def posix_def posix_extname_def posix_last_part_def startsWith_def)

text \<open>
  C8, as the code has it. The entries are tried in the order of the object's keys. Each is
  compared as a prefix of the path: the key as it is when the replacement has one of the
  extensions \<open>.js\<close>, \<open>.jsx\<close>, \<open>.ts\<close>, \<open>.tsx\<close>, the key with a trailing \<open>/\<close> (added if absent)
  otherwise. The replacement of the first entry that fits is returned, and \<open>null\<close> when
  none fits.
\<close>

theorem getAlias_first_prefix_match:
  "(getAlias P path wal = None \<longleftrightarrow> (\<forall>e\<in>set wal. \<not> prefix (entry_prefix P e) path))
   \<and> (getAlias P path wal = Some v \<longleftrightarrow>
        (\<exists>pre key post. wal = pre @ (key, v) # post
           \<and> prefix (entry_prefix P (key, v)) path
           \<and> (\<forall>e\<in>set pre. \<not> prefix (entry_prefix P e) path)))
   \<and> entry_prefix P (key', val') =
        (if extname P val' \<in> {''.js'', ''.jsx'', ''.ts'', ''.tsx''} then key'
         else if suffix ''/'' key' then key' else key' @ ''/'')"
proof -
  define Q where "Q = (\<lambda>e. prefix (entry_prefix P e) path)"
  have g: "getAlias P path wal = map_option snd (find Q wal)"
    unfolding Q_def by (rule getAlias_find)
  have none: "getAlias P path wal = None \<longleftrightarrow> (\<forall>e\<in>set wal. \<not> Q e)"
    by (auto simp: g find_None_iff)
  have "getAlias P path wal = Some v \<longleftrightarrow> (\<exists>key. find Q wal = Some (key, v))"
    by (auto simp: g)
  also have "\<dots> \<longleftrightarrow> (\<exists>pre key post. wal = pre @ (key, v) # post \<and> Q (key, v)
                         \<and> (\<forall>e\<in>set pre. \<not> Q e))"
    by (auto simp: find_split)
  finally have some: "getAlias P path wal = Some v \<longleftrightarrow>
      (\<exists>pre key post. wal = pre @ (key, v) # post \<and> Q (key, v) \<and> (\<forall>e\<in>set pre. \<not> Q e))" .
  have "entry_prefix P (key', val') =
        (if extname P val' \<in> {''.js'', ''.jsx'', ''.ts'', ''.tsx''} then key'
         else if suffix ''/'' key' then key' else key' @ ''/'')"
    by (simp add: entry_prefix_def isJSFile_def addLastSlash_def endsWith_def)
  with none some show ?thesis
    unfolding Q_def by simp
qed

theorem getAlias_first_prefix_match_witness:
  "getAlias posix ''foo/bar/baz''
     [(''x'', ''/y''), (''foo'', ''/dir''), (''foo/bar'', ''/z'')] = Some ''/dir''
   \<and> getAlias posix ''foo'' [(''x'', ''/y''), (''foo'', ''/dir'')] = None"
proof -
  have js: "\<not> isJSFile posix ''/y''" "\<not> isJSFile posix ''/dir''"
    by (simp_all add: isJSFile_def posix_def posix_extname_def posix_last_part_def)
  have "[(''x'', ''/y''), (''foo'', ''/dir''), (''foo/bar'', ''/z'')]
          = [(''x'', ''/y'')] @ (''foo'', ''/dir'') # [(''foo/bar'', ''/z'')]
        \<and> prefix (entry_prefix posix (''foo'', ''/dir'')) ''foo/bar/baz''
        \<and> (\<forall>e\<in>set [(''x'', ''/y'')]. \<not> prefix (entry_prefix posix e) ''foo/bar/baz'')"
    by (simp add: js entry_prefix_def addLastSlash_def endsWith_def suffix_def)
  then have "\<exists>pre key post.
          [(''x'', ''/y''), (''foo'', ''/dir''), (''foo/bar'', ''/z'')]
            = pre @ (key, ''/dir'') # post
          \<and> prefix (entry_prefix posix (key, ''/dir'')) ''foo/bar/baz''
          \<and> (\<forall>e\<in>set pre. \<not> prefix (entry_prefix posix e) ''foo/bar/baz'')"
    by blast
  moreover have "\<forall>e\<in>set [(''x'', ''/y''), (''foo'', ''/dir'')].
          \<not> prefix (entry_prefix posix e) ''foo''"
    by (simp add: js entry_prefix_def addLastSlash_def endsWith_def suffix_def)
  ultimately show ?thesis
    using getAlias_first_prefix_match
            [of posix "''foo/bar/baz''"
               "[(''x'', ''/y''), (''foo'', ''/dir''), (''foo/bar'', ''/z'')]"
               "''/dir''" "''x''" "''y''"]
          getAlias_first_prefix_match
            [of posix "''foo''" "[(''x'', ''/y''), (''foo'', ''/dir'')]" "''/dir''" "''x''" "''y''"]
    by blast
qed

section \<open>Counting statements (C9)\<close>

text \<open>
  C9 says that retained statements plus generated declarations number the original
  statements minus the removed imports. One matched import alone gives one declaration
  and no retained statement: one statement in the output, where the claim counts
  \<open>1 - 1 = 0\<close>.
\<close>

theorem statement_count_counterexample:
  "Program_exit posix scenario_opts ''f.js''
     [ImportDeclaration [ImportDefaultSpecifier ''Foo''] ''pkg''] =
   Inr \<lparr>body = [const (ObjectPattern [(''default'', ''Foo'')]) (awaitImport ''mf/pkg'')],
        variableDeclarations =
          [const (ObjectPattern [(''default'', ''Foo'')]) (awaitImport ''mf/pkg'')],
        calls = [(\<lparr>source = ''pkg'', file' = ''f.js'', isMatch = True,
                   isExportAllDeclaration = None\<rparr>,
                  [ImportDeclaration [ImportDefaultSpecifier ''Foo''] ''pkg''], [])]\<rparr>
   \<and> removed_imports posix scenario_opts
       [ImportDeclaration [ImportDefaultSpecifier ''Foo''] ''pkg'']
     = [ImportDeclaration [ImportDefaultSpecifier ''Foo''] ''pkg'']
   \<and> length [const (ObjectPattern [(''default'', ''Foo'')]) (awaitImport ''mf/pkg'')]
     \<noteq> length [ImportDeclaration [ImportDefaultSpecifier ''Foo''] ''pkg'']
       - length (removed_imports posix scenario_opts
           [ImportDeclaration [ImportDefaultSpecifier ''Foo''] ''pkg''])"
  by (simp add: Program_exit_def Program_exit_run_def Program_exit_turn_def scenario_match
        scenario_remote specifiersToProperties_def notify_def unshift_def splice1_def
        removed_imports_def scenario_callback)

text \<open>
  C9, as the code has it. In a pass that completes, the retained statements number the
  original statements minus the removed (matched) imports: every other statement
  leaves exactly one statement behind, itself or its replacement. The generated
  declarations come on top of that count in the output.
\<close>

theorem statement_count:
  assumes "\<forall>d\<in>set program. \<not> throws P opts d"
  shows "\<exists>st. Program_exit P opts f program = Inr st
           \<and> body st = generated P opts program @ retained P opts program
           \<and> length (retained P opts program)
               = length program - length (removed_imports P opts program)
           \<and> length (body st)
               = length (generated P opts program)
                 + (length program - length (removed_imports P opts program))
           \<and> (\<forall>d\<in>set program.
                 length (retained_of P opts d)
                   = (if d \<in> set (removed_imports P opts program) then 0 else 1))"
proof -
  have "length (retained_of P opts d)
          = (if d \<in> set (removed_imports P opts program) then 0 else 1)"
    if "d \<in> set program" for d
  proof -
    have mem: "d \<in> set (removed_imports P opts program) \<longleftrightarrow>
        (case d of ImportDeclaration specifiers src \<Rightarrow> matchLib P opts src = Inr True
         | _ \<Rightarrow> False)"
      using that by (simp add: removed_imports_def)
    show ?thesis
      unfolding mem
      by (cases d)
         (auto simp: retained_of_def matched_def reference_def
            split: option.splits member_lookup.splits)
  qed
  with Program_exit_body [OF assms, of f] show ?thesis
    by (auto simp: length_retained)
qed

theorem statement_count_witness:
  "\<exists>st. Program_exit posix scenario_opts ''f.js''
          [ImportDeclaration [ImportDefaultSpecifier ''Default'', ImportNamespaceSpecifier ''ns'']
             ''pkg'',
           OtherStatement ''x'',
           ExportAllDeclaration ''pkg''] = Inr st
        \<and> length (body st) = 3 + (3 - 1)"
proof -
  have o: "\<forall>d\<in>set [ImportDeclaration
             [ImportDefaultSpecifier ''Default'', ImportNamespaceSpecifier ''ns''] ''pkg'',
           OtherStatement ''x'',
           ExportAllDeclaration ''pkg'']. \<not> throws posix scenario_opts d"
    by (simp add: throws_def failure_def reference_def scenario_match scenario_members
          specifiersToProperties_def)
  show ?thesis
    using statement_count [OF o, of "''f.js''"]
    by (auto simp: eval_stmt removed_imports_def)
qed

section \<open>Wildcard mode never reads libs or alias (C10)\<close>

text \<open>
  C10. When \<open>matchAll\<close> is true, \<open>isMatchLib\<close> answers the same for any two \<open>libs\<close> and any
  two \<open>alias\<close> objects, whatever their entries, and it never throws: it returns a
  boolean, also when \<open>libs\<close> holds an entry that is neither a string nor a regular
  expression. So a pass in wildcard mode does not end in the configuration error.
\<close>

theorem wildcard_ignores_libs_and_alias:
  "isMatchLib P path ls (Some True) al wal = isMatchLib P path ls' (Some True) al' wal
   \<and> (\<exists>b. isMatchLib P path ls (Some True) al wal = Inr b)
   \<and> Program_exit P (opts\<lparr>matchAll := Some True\<rparr>) f program \<noteq> Inl UnsupportedLibFormat"
proof -
  have m: "\<exists>b. isMatchLib P p l (Some True) a w = Inr b" for p l a w
    by (auto simp: isMatchLib_def split: option.splits)
  have "failure P (opts\<lparr>matchAll := Some True\<rparr>) d \<noteq> Some UnsupportedLibFormat" for d
  proof
    assume "failure P (opts\<lparr>matchAll := Some True\<rparr>) d = Some UnsupportedLibFormat"
    then obtain src where
      "matchLib P (opts\<lparr>matchAll := Some True\<rparr>) src = Inl UnsupportedLibFormat"
      unfolding failure_config by blast
    moreover obtain b where "isMatchLib P src (libs opts) (Some True) (or_empty (alias' opts))
        (or_empty (webpackAlias opts)) = Inr b"
      using m by blast
    ultimately show False by (simp add: matchLib_def)
  qed
  then have "first_failure P (opts\<lparr>matchAll := Some True\<rparr>) program
      \<noteq> Some UnsupportedLibFormat"
    unfolding first_failure_Some by blast
  then have "Program_exit P (opts\<lparr>matchAll := Some True\<rparr>) f program \<noteq> Inl UnsupportedLibFormat"
    by (simp add: Program_exit_Inl)
  moreover have "isMatchLib P path ls (Some True) al wal
      = isMatchLib P path ls' (Some True) al' wal"
    by (simp add: isMatchLib_def)
  ultimately show ?thesis using m by blast
qed

theorem wildcard_ignores_libs_and_alias_witness:
  "isMatchLib posix ''lodash'' (Some [LibOther]) (Some True) [(''lodash'', ''x'')] []
     = isMatchLib posix ''lodash'' None (Some True) [] []
   \<and> isMatchLib posix ''lodash'' (Some [LibOther]) (Some True) [(''lodash'', ''x'')] [] = Inr True"
proof -
  have "isMatchLib posix ''lodash'' None (Some True) [] [] = Inr True"
    by (simp add: isMatchLib_def posix_def posix_isAbsolute_def)
  then show ?thesis
    using wildcard_ignores_libs_and_alias
            [of posix "''lodash''" "Some [LibOther]" "[(''lodash'', ''x'')]" "[]" None "[]"]
    by simp
qed

end
